theory Spec2Isabelle
  imports Complex_Main
begin

section \<open>JavaScript values\<close>

text \<open>
  The evaluator reads cache values and comparison operands. A Number is NaN, an infinity
  or a finite value; the finite values are modelled by exact rationals (the two zeros are
  one value, which no operator used here tells apart, and rounding to binary64 is not
  modelled). A string is a list of code units below 256. \<open>JObject i f s\<close> is an ordinary
  object or function, such as the methods that an object literal inherits: \<open>i\<close> is its
  identity, \<open>f\<close> tells whether it can be called, and \<open>s\<close> is the text that its
  \<^verbatim>\<open>toString\<close> gives, through which it converts to a primitive.
\<close>

datatype jsnum = NaN | Fin rat | PosInf | NegInf

datatype jsval =
  JUndefined | JNull | JBool bool | JNum jsnum | JStr string | JObject nat bool string

datatype error = MalformedCondition | TypeError

text \<open>\<^verbatim>\<open>typeof value\<close>\<close>

fun typeof :: "jsval \<Rightarrow> string" where
  "typeof JUndefined = ''undefined''"
| "typeof JNull = ''object''"
| "typeof (JBool b) = ''boolean''"
| "typeof (JNum n) = ''number''"
| "typeof (JStr s) = ''string''"
| "typeof (JObject i f s) = (if f then ''function'' else ''object'')"

text \<open>Truthiness (ToBoolean), and the value-returning operators \<^verbatim>\<open>&&\<close> and \<^verbatim>\<open>||\<close>.\<close>

fun truthy :: "jsval \<Rightarrow> bool" where
  "truthy JUndefined = False"
| "truthy JNull = False"
| "truthy (JBool b) = b"
| "truthy (JNum n) = (n \<noteq> NaN \<and> n \<noteq> Fin 0)"
| "truthy (JStr s) = (s \<noteq> [])"
| "truthy (JObject i f s) = True"

definition js_and :: "jsval \<Rightarrow> jsval \<Rightarrow> jsval" where
  "js_and a b = (if truthy a then b else a)"

definition js_or :: "jsval \<Rightarrow> jsval \<Rightarrow> jsval" where
  "js_or a b = (if truthy a then a else b)"

subsection \<open>Number(value)\<close>

text \<open>
  The conversion of a string to a Number: white space is trimmed, the empty string is 0,
  then a binary, octal or hexadecimal integer without sign, or an optionally signed
  \<^verbatim>\<open>Infinity\<close> or decimal literal with optional fraction and exponent. Anything
  else is NaN.
\<close>

definition isWhiteSpace :: "char \<Rightarrow> bool" where
  "isWhiteSpace c = ((of_char c :: nat) \<in> {9, 10, 11, 12, 13, 32, 160})"

definition trim :: "string \<Rightarrow> string" where
  "trim s = rev (dropWhile isWhiteSpace (rev (dropWhile isWhiteSpace s)))"

definition digitValue :: "char \<Rightarrow> nat option" where
  "digitValue c =
     (let n = (of_char c :: nat) in
      if 48 \<le> n \<and> n \<le> 57 then Some (n - 48)
      else if 97 \<le> n \<and> n \<le> 102 then Some (n - 87)
      else if 65 \<le> n \<and> n \<le> 70 then Some (n - 55)
      else None)"

definition isDigit :: "nat \<Rightarrow> char \<Rightarrow> bool" where
  "isDigit base c = (case digitValue c of None \<Rightarrow> False | Some d \<Rightarrow> d < base)"

definition digitsValue :: "nat \<Rightarrow> string \<Rightarrow> nat" where
  "digitsValue base ds = foldl (\<lambda>acc c. acc * base + (case digitValue c of None \<Rightarrow> 0 | Some d \<Rightarrow> d)) 0 ds"

definition parseNonDecimal :: "string \<Rightarrow> nat option" where
  "parseNonDecimal s =
     (case s of
        z # p # ds \<Rightarrow>
          (let base = (if p = CHR ''x'' \<or> p = CHR ''X'' then 16
                       else if p = CHR ''o'' \<or> p = CHR ''O'' then 8
                       else if p = CHR ''b'' \<or> p = CHR ''B'' then 2 else 0 :: nat)
           in if z = CHR ''0'' \<and> base \<noteq> 0 \<and> ds \<noteq> [] \<and> list_all (isDigit base) ds
              then Some (digitsValue base ds) else None)
      | _ \<Rightarrow> None)"

definition parseExponent :: "string \<Rightarrow> int option" where
  "parseExponent s =
     (case s of
        [] \<Rightarrow> Some 0
      | e # r \<Rightarrow>
          if e = CHR ''e'' \<or> e = CHR ''E'' then
            (let neg = (case r of c # _ \<Rightarrow> c = CHR ''-'' | [] \<Rightarrow> False);
                 ds = (case r of c # r' \<Rightarrow> if c = CHR ''+'' \<or> c = CHR ''-'' then r' else r
                       | [] \<Rightarrow> [])
             in if ds \<noteq> [] \<and> list_all (isDigit 10) ds
                then Some (if neg then - int (digitsValue 10 ds) else int (digitsValue 10 ds))
                else None)
          else None)"

definition pow10 :: "int \<Rightarrow> rat" where
  "pow10 e = (if 0 \<le> e then 10 ^ nat e else 1 / 10 ^ nat (- e))"

definition parseUnsignedDecimal :: "string \<Rightarrow> jsnum" where
  "parseUnsignedDecimal s =
     (if s = ''Infinity'' then PosInf
      else
        let ip = takeWhile (isDigit 10) s;
            r1 = dropWhile (isDigit 10) s;
            hasDot = (case r1 of c # _ \<Rightarrow> c = CHR ''.'' | [] \<Rightarrow> False);
            fp = (if hasDot then takeWhile (isDigit 10) (tl r1) else []);
            r2 = (if hasDot then dropWhile (isDigit 10) (tl r1) else r1)
        in if ip = [] \<and> fp = [] then NaN
           else case parseExponent r2 of
                  None \<Rightarrow> NaN
                | Some e \<Rightarrow>
                    Fin ((of_nat (digitsValue 10 ip)
                          + of_nat (digitsValue 10 fp) / 10 ^ length fp) * pow10 e))"

fun negate :: "jsnum \<Rightarrow> jsnum" where
  "negate NaN = NaN"
| "negate (Fin q) = Fin (- q)"
| "negate PosInf = NegInf"
| "negate NegInf = PosInf"

definition StringToNumber :: "string \<Rightarrow> jsnum" where
  "StringToNumber s =
     (let t = trim s in
      if t = [] then Fin 0
      else case parseNonDecimal t of
             Some n \<Rightarrow> Fin (of_nat n)
           | None \<Rightarrow>
               (if hd t = CHR ''+'' then parseUnsignedDecimal (tl t)
                else if hd t = CHR ''-'' then negate (parseUnsignedDecimal (tl t))
                else parseUnsignedDecimal t))"

fun Number :: "jsval \<Rightarrow> jsnum" where
  "Number JUndefined = NaN"
| "Number JNull = Fin 0"
| "Number (JBool b) = Fin (if b then 1 else 0)"
| "Number (JNum n) = n"
| "Number (JStr s) = StringToNumber s"
| "Number (JObject i f s) = StringToNumber s"

definition isNaN :: "jsnum \<Rightarrow> bool" where
  "isNaN n = (n = NaN)"

subsection \<open>Comparison\<close>

text \<open>
  The relational comparison of the language: both operands are converted to primitives,
  two strings are compared code unit by code unit, any other pair as Numbers, and a
  comparison with NaN is undefined (\<open>None\<close>), which every relational operator turns
  into false.
\<close>

fun num_lt :: "jsnum \<Rightarrow> jsnum \<Rightarrow> bool" where
  "num_lt (Fin a) (Fin b) = (a < b)"
| "num_lt (Fin a) PosInf = True"
| "num_lt NegInf (Fin b) = True"
| "num_lt NegInf PosInf = True"
| "num_lt _ _ = False"

fun str_lt :: "string \<Rightarrow> string \<Rightarrow> bool" where
  "str_lt [] [] = False"
| "str_lt [] (y # ys) = True"
| "str_lt (x # xs) [] = False"
| "str_lt (x # xs) (y # ys) =
     ((of_char x :: nat) < of_char y \<or> (x = y \<and> str_lt xs ys))"

fun ToPrimitive :: "jsval \<Rightarrow> jsval" where
  "ToPrimitive (JObject i f s) = JStr s"
| "ToPrimitive v = v"

fun isLessThanPrimitive :: "jsval \<Rightarrow> jsval \<Rightarrow> bool option" where
  "isLessThanPrimitive (JStr s) (JStr t) = Some (str_lt s t)"
| "isLessThanPrimitive x y =
     (if isNaN (Number x) \<or> isNaN (Number y) then None
      else Some (num_lt (Number x) (Number y)))"

definition isLessThan :: "jsval \<Rightarrow> jsval \<Rightarrow> bool option" where
  "isLessThan x y = isLessThanPrimitive (ToPrimitive x) (ToPrimitive y)"

definition js_lt :: "jsval \<Rightarrow> jsval \<Rightarrow> bool" where
  "js_lt a b = (isLessThan a b = Some True)"

definition js_gt :: "jsval \<Rightarrow> jsval \<Rightarrow> bool" where
  "js_gt a b = (isLessThan b a = Some True)"

definition js_le :: "jsval \<Rightarrow> jsval \<Rightarrow> bool" where
  "js_le a b = (isLessThan b a = Some False)"

definition js_ge :: "jsval \<Rightarrow> jsval \<Rightarrow> bool" where
  "js_ge a b = (isLessThan a b = Some False)"

text \<open>
  \<^verbatim>\<open>a === b\<close>: the same type and the same value (the same object, for objects), and
  NaN equals nothing.
\<close>

definition js_seq :: "jsval \<Rightarrow> jsval \<Rightarrow> bool" where
  "js_seq a b = (a = b \<and> a \<noteq> JNum NaN)"

subsection \<open>Conversion to strings, string methods\<close>

function natDigits :: "nat \<Rightarrow> string" where
  "natDigits n =
     (if n < 10 then [char_of (48 + n)]
      else natDigits (n div 10) @ [char_of (48 + n mod 10)])"
  by pat_completeness auto
termination
  by (relation "measure id") auto

fun findScale :: "nat \<Rightarrow> rat \<Rightarrow> nat" where
  "findScale 0 q = 0"
| "findScale (Suc fuel) q =
     (if of_int \<lfloor>q\<rfloor> = q then 0 else Suc (findScale fuel (q * 10)))"

text \<open>
  The decimal form of a positive finite Number: with \<open>k\<close> significant digits and the
  decimal point after the \<open>n\<close>-th of them, plain notation for \<open>-6 < n \<le> 21\<close> and
  exponent notation otherwise. A binary64 value has at most 1074 fractional digits.
\<close>

definition positiveToString :: "rat \<Rightarrow> string" where
  "positiveToString q =
     (let m = findScale 1074 q;
          ds0 = natDigits (nat \<lfloor>q * 10 ^ m\<rfloor>);
          ds = rev (dropWhile (\<lambda>c. c = CHR ''0'') (rev ds0));
          k = int (length ds);
          n = int (length ds0) - int m
      in if k \<le> n \<and> n \<le> 21 then ds @ replicate (nat (n - k)) CHR ''0''
         else if 0 < n \<and> n \<le> 21 then take (nat n) ds @ ''.'' @ drop (nat n) ds
         else if - 6 < n \<and> n \<le> 0 then ''0.'' @ replicate (nat (- n)) CHR ''0'' @ ds
         else
           let e = n - 1;
               es = (if 0 \<le> e then ''+'' else ''-'') @ natDigits (nat \<bar>e\<bar>)
           in if k = 1 then ds @ ''e'' @ es
              else take 1 ds @ ''.'' @ drop 1 ds @ ''e'' @ es)"

fun numberToString :: "jsnum \<Rightarrow> string" where
  "numberToString NaN = ''NaN''"
| "numberToString PosInf = ''Infinity''"
| "numberToString NegInf = ''-Infinity''"
| "numberToString (Fin q) =
     (if q = 0 then ''0''
      else if q < 0 then ''-'' @ positiveToString (- q)
      else positiveToString q)"

fun ToString :: "jsval \<Rightarrow> string" where
  "ToString JUndefined = ''undefined''"
| "ToString JNull = ''null''"
| "ToString (JBool b) = (if b then ''true'' else ''false'')"
| "ToString (JNum n) = numberToString n"
| "ToString (JStr s) = s"
| "ToString (JObject i f s) = s"

definition startsWithStr :: "string \<Rightarrow> string \<Rightarrow> bool" where
  "startsWithStr s t = (take (length t) s = t)"

definition endsWithStr :: "string \<Rightarrow> string \<Rightarrow> bool" where
  "endsWithStr s t = (length t \<le> length s \<and> drop (length s - length t) s = t)"

fun includesStr :: "string \<Rightarrow> string \<Rightarrow> bool" where
  "includesStr [] t = (t = [])"
| "includesStr (c # cs) t = (startsWithStr (c # cs) t \<or> includesStr cs t)"

text \<open>
  The methods \<^verbatim>\<open>includes\<close>, \<^verbatim>\<open>startsWith\<close> and \<^verbatim>\<open>endsWith\<close> exist on
  strings only: on any other receiver the call raises a TypeError. The argument is
  converted to a string.
\<close>

fun js_includes :: "jsval \<Rightarrow> jsval \<Rightarrow> error + jsval" where
  "js_includes (JStr s) x = Inr (JBool (includesStr s (ToString x)))"
| "js_includes _ x = Inl TypeError"

fun js_startsWith :: "jsval \<Rightarrow> jsval \<Rightarrow> error + jsval" where
  "js_startsWith (JStr s) x = Inr (JBool (startsWithStr s (ToString x)))"
| "js_startsWith _ x = Inl TypeError"

fun js_endsWith :: "jsval \<Rightarrow> jsval \<Rightarrow> error + jsval" where
  "js_endsWith (JStr s) x = Inr (JBool (endsWithStr s (ToString x)))"
| "js_endsWith _ x = Inl TypeError"

text \<open>\<^verbatim>\<open>array[i]\<close>: undefined beyond the end of the array.\<close>

definition item :: "jsval list \<Rightarrow> nat \<Rightarrow> jsval" where
  "item xs i = (if i < length xs then xs ! i else JUndefined)"

section \<open>The condition evaluator\<close>

subsection \<open>Input validators\<close>

text \<open>
  \<^verbatim>\<open>validateNumberInput\<close> and \<^verbatim>\<open>validateStringInput\<close> run over the whole input
  with a flag that starts true.
\<close>

definition validateNumberInput :: "jsval list \<Rightarrow> bool" where
  "validateNumberInput input =
     fold (\<lambda>value valid. valid \<and> typeof value = ''number'') input True"

definition validateStringInput :: "jsval list \<Rightarrow> bool" where
  "validateStringInput input =
     fold (\<lambda>value valid. valid \<and> typeof value = ''string'') input True"

definition inputValidators :: "(string \<times> (jsval list \<Rightarrow> bool)) list" where
  "inputValidators =
     [(''number'', validateNumberInput),
      (''string'', validateStringInput),
      (''enum'', validateNumberInput)]"

subsection \<open>The library of operations\<close>

text \<open>
  An entry of \<^verbatim>\<open>this.operations\<close>. Its field \<^verbatim>\<open>text\<close> is \<open>label\<close> here. The
  function \<open>operation\<close> gets the array whose first element is the telemetry value and
  whose other elements are the comparison values.
\<close>

record opdef =
  operation :: "jsval list \<Rightarrow> error + jsval"
  label :: string
  appliesTo :: "string list"
  inputCount :: nat
  getDescription :: "jsval list \<Rightarrow> string"

definition textContains :: "jsval list \<Rightarrow> error + jsval" where
  "textContains input =
     (if \<not> truthy (item input 0) then Inr (item input 0)
      else if \<not> truthy (item input 1) then Inr (item input 1)
      else js_includes (item input 0) (item input 1))"

definition textDoesNotContain :: "jsval list \<Rightarrow> error + jsval" where
  "textDoesNotContain input =
     (if \<not> truthy (item input 0) then Inr (item input 0)
      else if \<not> truthy (item input 1) then Inr (item input 1)
      else case js_includes (item input 0) (item input 1) of
             Inl e \<Rightarrow> Inl e
           | Inr found \<Rightarrow> Inr (JBool (\<not> truthy found)))"

definition operations :: "(string \<times> opdef) list" where
  "operations =
   [(''equalTo'',
      \<lparr>operation = (\<lambda>input. Inr (JBool (js_seq (item input 0) (item input 1)))),
       label = ''is equal to'', appliesTo = [''number''], inputCount = 1,
       getDescription = (\<lambda>values. '' == '' @ ToString (item values 0))\<rparr>),
    (''notEqualTo'',
      \<lparr>operation = (\<lambda>input. Inr (JBool (\<not> js_seq (item input 0) (item input 1)))),
       label = ''is not equal to'', appliesTo = [''number''], inputCount = 1,
       getDescription = (\<lambda>values. '' != '' @ ToString (item values 0))\<rparr>),
    (''greaterThan'',
      \<lparr>operation = (\<lambda>input. Inr (JBool (js_gt (item input 0) (item input 1)))),
       label = ''is greater than'', appliesTo = [''number''], inputCount = 1,
       getDescription = (\<lambda>values. '' > '' @ ToString (item values 0))\<rparr>),
    (''lessThan'',
      \<lparr>operation = (\<lambda>input. Inr (JBool (js_lt (item input 0) (item input 1)))),
       label = ''is less than'', appliesTo = [''number''], inputCount = 1,
       getDescription = (\<lambda>values. '' < '' @ ToString (item values 0))\<rparr>),
    (''greaterThanOrEq'',
      \<lparr>operation = (\<lambda>input. Inr (JBool (js_ge (item input 0) (item input 1)))),
       label = ''is greater than or equal to'', appliesTo = [''number''], inputCount = 1,
       getDescription = (\<lambda>values. '' >= '' @ ToString (item values 0))\<rparr>),
    (''lessThanOrEq'',
      \<lparr>operation = (\<lambda>input. Inr (JBool (js_le (item input 0) (item input 1)))),
       label = ''is less than or equal to'', appliesTo = [''number''], inputCount = 1,
       getDescription = (\<lambda>values. '' <= '' @ ToString (item values 0))\<rparr>),
    (''between'',
      \<lparr>operation = (\<lambda>input. Inr (JBool (js_gt (item input 0) (item input 1)
                                          \<and> js_lt (item input 0) (item input 2)))),
       label = ''is between'', appliesTo = [''number''], inputCount = 2,
       getDescription = (\<lambda>values. '' between '' @ ToString (item values 0)
                                     @ '' and '' @ ToString (item values 1))\<rparr>),
    (''notBetween'',
      \<lparr>operation = (\<lambda>input. Inr (JBool (js_lt (item input 0) (item input 1)
                                          \<or> js_gt (item input 0) (item input 2)))),
       label = ''is not between'', appliesTo = [''number''], inputCount = 2,
       getDescription = (\<lambda>values. '' not between '' @ ToString (item values 0)
                                     @ '' and '' @ ToString (item values 1))\<rparr>),
    (''textContains'',
      \<lparr>operation = textContains,
       label = ''text contains'', appliesTo = [''string''], inputCount = 1,
       getDescription = (\<lambda>values. '' contains '' @ ToString (item values 0))\<rparr>),
    (''textDoesNotContain'',
      \<lparr>operation = textDoesNotContain,
       label = ''text does not contain'', appliesTo = [''string''], inputCount = 1,
       getDescription = (\<lambda>values. '' does not contain '' @ ToString (item values 0))\<rparr>),
    (''textStartsWith'',
      \<lparr>operation = (\<lambda>input. js_startsWith (item input 0) (item input 1)),
       label = ''text starts with'', appliesTo = [''string''], inputCount = 1,
       getDescription = (\<lambda>values. '' starts with '' @ ToString (item values 0))\<rparr>),
    (''textEndsWith'',
      \<lparr>operation = (\<lambda>input. js_endsWith (item input 0) (item input 1)),
       label = ''text ends with'', appliesTo = [''string''], inputCount = 1,
       getDescription = (\<lambda>values. '' ends with '' @ ToString (item values 0))\<rparr>),
    (''textIsExactly'',
      \<lparr>operation = (\<lambda>input. Inr (JBool (js_seq (item input 0) (item input 1)))),
       label = ''text is exactly'', appliesTo = [''string''], inputCount = 1,
       getDescription = (\<lambda>values. '' is exactly '' @ ToString (item values 0))\<rparr>),
    (''isUndefined'',
      \<lparr>operation = (\<lambda>input. Inr (JBool (typeof (item input 0) = ''undefined''))),
       label = ''is undefined'', appliesTo = [''string'', ''number'', ''enum''],
       inputCount = 0,
       getDescription = (\<lambda>values. '' is undefined'')\<rparr>),
    (''isDefined'',
      \<lparr>operation = (\<lambda>input. Inr (JBool (typeof (item input 0) \<noteq> ''undefined''))),
       label = ''is defined'', appliesTo = [''string'', ''number'', ''enum''],
       inputCount = 0,
       getDescription = (\<lambda>values. '' is defined'')\<rparr>),
    (''enumValueIs'',
      \<lparr>operation = (\<lambda>input. Inr (JBool (js_seq (item input 0) (item input 1)))),
       label = ''is'', appliesTo = [''enum''], inputCount = 1,
       getDescription = (\<lambda>values. '' == '' @ ToString (item values 0))\<rparr>),
    (''enumValueIsNot'',
      \<lparr>operation = (\<lambda>input. Inr (JBool (\<not> js_seq (item input 0) (item input 1)))),
       label = ''is not'', appliesTo = [''enum''], inputCount = 1,
       getDescription = (\<lambda>values. '' != '' @ ToString (item values 0))\<rparr>)]"

subsection \<open>The evaluator and its conditions\<close>

text \<open>
  A cache is modelled by what reading it yields, whether the property read is the
  object's own or one it inherits along its prototype chain: \<open>cache obj\<close> is \<open>Some\<close>
  when \<^verbatim>\<open>cache[object]\<close> is truthy, and then gives the reads
  \<^verbatim>\<open>cache[object][key]\<close>, where \<open>None\<close> is a read that yields undefined. So a cache
  built from object literals has, beside its own entities and fields, the methods of
  \<^verbatim>\<open>Object.prototype\<close> as values of the inherited names. Reads yield values; no
  accessor raises. Only the keys of \<^verbatim>\<open>compositionObjs\<close> are read, in their order. The
  method \<^verbatim>\<open>executeJavaScriptCondition\<close> is not defined beside the evaluator and is a
  parameter here.
\<close>

type_synonym cache = "string \<rightharpoonup> (string \<rightharpoonup> jsval)"

record condition =
  object :: string
  key :: string
  operationKey :: string
  comparisonValues :: "jsval list"

datatype conditions = Conditions "condition list" | Expression string | NoConditions

record evaluator =
  subscriptionCache :: cache
  compositionObjs :: "string list"
  testCache :: cache
  useTestCache :: bool
  executeJavaScriptCondition :: "conditions \<Rightarrow> error + jsval"

definition ConditionEvaluator ::
  "cache \<Rightarrow> string list \<Rightarrow> (conditions \<Rightarrow> error + jsval) \<Rightarrow> evaluator" where
  "ConditionEvaluator cache objs js =
     \<lparr>subscriptionCache = cache, compositionObjs = objs, testCache = Map.empty,
      useTestCache = False, executeJavaScriptCondition = js\<rparr>"

definition setTestDataCache :: "evaluator \<Rightarrow> cache \<Rightarrow> evaluator" where
  "setTestDataCache ev cache = ev\<lparr>testCache := cache\<rparr>"

definition useTestData :: "evaluator \<Rightarrow> bool \<Rightarrow> evaluator" where
  "useTestData ev flag = ev\<lparr>useTestCache := flag\<rparr>"

subsection \<open>executeCondition\<close>

definition activeCache :: "evaluator \<Rightarrow> cache" where
  "activeCache ev = (if useTestCache ev then testCache ev else subscriptionCache ev)"

text \<open>
  The local \<^verbatim>\<open>telemetryValue\<close>: a one-element array when the active cache has the
  entity and a value other than undefined under the key, and undefined (\<open>None\<close>) if not.
\<close>

definition telemetryValue :: "evaluator \<Rightarrow> string \<Rightarrow> string \<Rightarrow> jsval list option" where
  "telemetryValue ev obj k =
     (case activeCache ev obj of
        None \<Rightarrow> None
      | Some entity \<Rightarrow>
          (case entity k of
             None \<Rightarrow> None
           | Some v \<Rightarrow>
               if typeof v \<noteq> ''undefined''
               then Some [if isNaN (Number v) then v else JNum (Number v)]
               else None))"

text \<open>The validator of the first type an operation applies to.\<close>

definition validatorOf :: "opdef \<Rightarrow> (jsval list \<Rightarrow> bool) option" where
  "validatorOf od = (case appliesTo od of [] \<Rightarrow> None | t # _ \<Rightarrow> map_of inputValidators t)"

text \<open>The test that guards the call of the operation.\<close>

definition validInput :: "opdef \<Rightarrow> (jsval list \<Rightarrow> bool) \<Rightarrow> jsval list \<Rightarrow> bool" where
  "validInput od validator input =
     (if length (appliesTo od) > 1
      then validateNumberInput input \<or> validateStringInput input
      else validator input)"

definition executeCondition ::
  "evaluator \<Rightarrow> string \<Rightarrow> string \<Rightarrow> string \<Rightarrow> jsval list \<Rightarrow> error + jsval" where
  "executeCondition ev obj k opKey vals =
     (case map_of operations opKey of
        None \<Rightarrow> Inl MalformedCondition
      | Some od \<Rightarrow>
          (case map_option (\<lambda>tv. tv @ vals) (telemetryValue ev obj k) of
             None \<Rightarrow> Inl MalformedCondition
           | Some input \<Rightarrow>
               (case validatorOf od of
                  None \<Rightarrow> Inl MalformedCondition
                | Some validator \<Rightarrow>
                    if validInput od validator input then operation od input
                    else Inr (JBool False))))"

subsection \<open>execute\<close>

text \<open>
  The variables of \<^verbatim>\<open>execute\<close> that its loops update. \<^verbatim>\<open>conditionValue\<close> is
  declared without a value.
\<close>

record run =
  active :: jsval
  conditionValue :: jsval
  conditionDefined :: bool
  firstRuleEvaluated :: bool

definition initialRun :: run where
  "initialRun =
     \<lparr>active = JBool False, conditionValue = JUndefined, conditionDefined = False,
      firstRuleEvaluated = False\<rparr>"

text \<open>
  One entity of a fan-out. \<^verbatim>\<open>||\<close> and \<^verbatim>\<open>&&\<close> do not evaluate their right
  operand when the left one decides, and an error raised by \<^verbatim>\<open>executeCondition\<close>
  leaves both variables as they were.
\<close>

definition anyMember :: "evaluator \<Rightarrow> condition \<Rightarrow> string \<Rightarrow> run \<Rightarrow> run" where
  "anyMember ev c objId r =
     (if truthy (conditionValue r) then r\<lparr>conditionDefined := True\<rparr>
      else case executeCondition ev objId (key c) (operationKey c) (comparisonValues c) of
             Inl e \<Rightarrow> r
           | Inr v \<Rightarrow> r\<lparr>conditionValue := v, conditionDefined := True\<rparr>)"

definition allMember :: "evaluator \<Rightarrow> condition \<Rightarrow> string \<Rightarrow> run \<Rightarrow> run" where
  "allMember ev c objId r =
     (if \<not> truthy (conditionValue r) then r\<lparr>conditionDefined := True\<rparr>
      else case executeCondition ev objId (key c) (operationKey c) (comparisonValues c) of
             Inl e \<Rightarrow> r
           | Inr v \<Rightarrow> r\<lparr>conditionValue := v, conditionDefined := True\<rparr>)"

text \<open>The first half of the loop body: the value of one condition.\<close>

definition evaluateCondition :: "evaluator \<Rightarrow> condition \<Rightarrow> run \<Rightarrow> run" where
  "evaluateCondition ev c r0 =
     (let r = r0\<lparr>conditionDefined := False\<rparr> in
      if object c = ''any''
      then fold (anyMember ev c) (compositionObjs ev) (r\<lparr>conditionValue := JBool False\<rparr>)
      else if object c = ''all''
      then fold (allMember ev c) (compositionObjs ev) (r\<lparr>conditionValue := JBool True\<rparr>)
      else case executeCondition ev (object c) (key c) (operationKey c)
                  (comparisonValues c) of
             Inl e \<Rightarrow> r
           | Inr v \<Rightarrow> r\<lparr>conditionValue := v, conditionDefined := True\<rparr>)"

text \<open>The second half: a defined condition joins the result.\<close>

definition combine :: "string \<Rightarrow> run \<Rightarrow> run" where
  "combine mode r =
     (if conditionDefined r then
        (let r1 = r\<lparr>active := (if mode = ''all'' \<and> \<not> firstRuleEvaluated r
                                then JBool True else active r),
                     firstRuleEvaluated := True\<rparr>
         in if mode = ''any'' then r1\<lparr>active := js_or (active r1) (conditionValue r1)\<rparr>
            else if mode = ''all''
            then r1\<lparr>active := js_and (active r1) (conditionValue r1)\<rparr>
            else r1)
      else r)"

definition conditionStep :: "evaluator \<Rightarrow> string \<Rightarrow> condition \<Rightarrow> run \<Rightarrow> run" where
  "conditionStep ev mode c r = combine mode (evaluateCondition ev c r)"

text \<open>
  \<^verbatim>\<open>(conditions || [])\<close> is the empty array for a missing or empty value; a non-empty
  string has no \<^verbatim>\<open>forEach\<close>.
\<close>

definition execute :: "evaluator \<Rightarrow> conditions \<Rightarrow> string \<Rightarrow> error + jsval" where
  "execute ev conds mode =
     (if mode = ''js'' then executeJavaScriptCondition ev conds
      else case conds of
             Conditions cs \<Rightarrow> Inr (active (fold (conditionStep ev mode) cs initialRun))
           | NoConditions \<Rightarrow> Inr (active initialRun)
           | Expression s \<Rightarrow> if s = [] then Inr (active initialRun) else Inl TypeError)"

subsection \<open>Queries on the library\<close>

text \<open>
  \<^verbatim>\<open>this.operations\<close> is an object literal: beside the operations it has the
  properties that every such object inherits from \<^verbatim>\<open>Object.prototype\<close>, which are
  methods (and the prototype itself, under \<^verbatim>\<open>__proto__\<close>) with none of the fields of
  an operation. In \<^verbatim>\<open>executeCondition\<close> such a key gives no \<^verbatim>\<open>operation\<close>, as a
  key that is absent.
\<close>

definition objectPrototypeNames :: "string list" where
  "objectPrototypeNames =
     [''constructor'', ''hasOwnProperty'', ''isPrototypeOf'', ''propertyIsEnumerable'',
      ''toLocaleString'', ''toString'', ''valueOf'', ''__proto__'', ''__defineGetter__'',
      ''__defineSetter__'', ''__lookupGetter__'', ''__lookupSetter__'']"

definition inherited :: "string \<Rightarrow> bool" where
  "inherited k = (k \<in> set objectPrototypeNames)"

text \<open>
  \<^verbatim>\<open>getOperationText\<close> reads \<^verbatim>\<open>this.operations[key].text\<close> without a test: this
  raises a TypeError when \<^verbatim>\<open>this.operations[key]\<close> is undefined, and is undefined for
  an inherited key. The other two test \<^verbatim>\<open>this.operations[key]\<close> first and return
  undefined when it is undefined; for an inherited key \<^verbatim>\<open>getInputCount\<close> reads
  undefined, and \<^verbatim>\<open>getOperationDescription\<close> calls a \<^verbatim>\<open>getDescription\<close> that is
  undefined, which raises a TypeError.
\<close>

definition getOperationText :: "string \<Rightarrow> error + jsval" where
  "getOperationText k =
     (case map_of operations k of
        None \<Rightarrow> if inherited k then Inr JUndefined else Inl TypeError
      | Some od \<Rightarrow> Inr (JStr (label od)))"

definition getInputCount :: "string \<Rightarrow> error + jsval" where
  "getInputCount k =
     (case map_of operations k of
        None \<Rightarrow> Inr JUndefined
      | Some od \<Rightarrow> Inr (JNum (Fin (of_nat (inputCount od)))))"

definition getOperationDescription :: "string \<Rightarrow> jsval list \<Rightarrow> error + jsval" where
  "getOperationDescription k vals =
     (case map_of operations k of
        None \<Rightarrow> if inherited k then Inl TypeError else Inr JUndefined
      | Some od \<Rightarrow> Inr (JStr (getDescription od vals)))"

section \<open>Notions of the specification and example evaluators\<close>

text \<open>
  A condition none of whose evaluations succeeds: the one call for a condition on an
  entity, every call of the fan-out for \<^verbatim>\<open>any\<close> and \<^verbatim>\<open>all\<close>.
\<close>

definition evaluationFails :: "evaluator \<Rightarrow> condition \<Rightarrow> string \<Rightarrow> bool" where
  "evaluationFails ev c objId =
     isl (executeCondition ev objId (key c) (operationKey c) (comparisonValues c))"

definition neverDefined :: "evaluator \<Rightarrow> condition \<Rightarrow> bool" where
  "neverDefined ev c =
     (if object c = ''any'' \<or> object c = ''all''
      then list_all (evaluationFails ev c) (compositionObjs ev)
      else evaluationFails ev c (object c))"

text \<open>
  The coercion as the specification words it: a value that parses fully to a finite
  number becomes that number, any other value is kept.
\<close>

definition parsesToFiniteNumber :: "jsval \<Rightarrow> bool" where
  "parsesToFiniteNumber v = (case Number v of Fin q \<Rightarrow> True | _ \<Rightarrow> False)"

definition coercionOfSpec :: "jsval \<Rightarrow> jsval" where
  "coercionOfSpec v = (if parsesToFiniteNumber v then JNum (Number v) else v)"

text \<open>
  The results of the fan-out of a condition, one for each entity in the order of the
  entities, and the results that are booleans.
\<close>

definition memberResults :: "evaluator \<Rightarrow> condition \<Rightarrow> (error + jsval) list" where
  "memberResults ev c =
     map (\<lambda>objId. executeCondition ev objId (key c) (operationKey c) (comparisonValues c))
       (compositionObjs ev)"

definition booleanResult :: "error + jsval \<Rightarrow> bool" where
  "booleanResult x = (x = Inr (JBool True) \<or> x = Inr (JBool False))"

text \<open>No \<^verbatim>\<open>executeJavaScriptCondition\<close>: calling the missing method is a TypeError.\<close>

definition noJavaScript :: "conditions \<Rightarrow> error + jsval" where
  "noJavaScript conds = Inl TypeError"

text \<open>
  The example caches have the listed entities and fields and nothing else: no name read
  in them below is one that an object literal inherits, so that they read alike with
  and without the prototype of object literals.
\<close>

text \<open>Entities A and B with \<open>A.x = 5\<close> and \<open>B.x = 10\<close>, in both orders of the entities.\<close>

definition cacheAB :: cache where
  "cacheAB = [''A'' \<mapsto> [''x'' \<mapsto> JNum (Fin 5)], ''B'' \<mapsto> [''x'' \<mapsto> JNum (Fin 10)]]"

definition evaluatorAB :: evaluator where
  "evaluatorAB = ConditionEvaluator cacheAB [''A'', ''B''] noJavaScript"

definition evaluatorBA :: evaluator where
  "evaluatorBA = ConditionEvaluator cacheAB [''B'', ''A''] noJavaScript"

text \<open>
  The entity \<^verbatim>\<open>{x: 5}\<close> as an object literal reads under the inherited name
  \<^verbatim>\<open>toString\<close>: the method of \<^verbatim>\<open>Object.prototype\<close>.
\<close>

definition toStringMethod :: jsval where
  "toStringMethod = JObject 0 True ''function toString() { [native code] }''"

definition literalEvaluator :: evaluator where
  "literalEvaluator =
     ConditionEvaluator [''A'' \<mapsto> [''x'' \<mapsto> JNum (Fin 5), ''toString'' \<mapsto> toStringMethod]]
       [''A''] noJavaScript"

text \<open>An entity whose fields hold text: \<open>"42"\<close>, the empty string, \<open>"Infinity"\<close>, \<open>"on"\<close>.\<close>

definition textFields :: "string \<rightharpoonup> jsval" where
  "textFields =
     [''count'' \<mapsto> JStr ''42'', ''empty'' \<mapsto> JStr [],
      ''huge'' \<mapsto> JStr ''Infinity'', ''state'' \<mapsto> JStr ''on'']"

definition textCache :: cache where
  "textCache = [''A'' \<mapsto> textFields]"

definition textEvaluator :: evaluator where
  "textEvaluator = ConditionEvaluator textCache [''A''] noJavaScript"

text \<open>A test cache with \<open>A.x = 1\<close>.\<close>

definition testCacheA :: cache where
  "testCacheA = [''A'' \<mapsto> [''x'' \<mapsto> JNum (Fin 1)]]"

definition greaterThan7 :: "string \<Rightarrow> condition" where
  "greaterThan7 obj =
     \<lparr>object = obj, key = ''x'', operationKey = ''greaterThan'',
      comparisonValues = [JNum (Fin 7)]\<rparr>"

section \<open>Properties\<close>

subsection \<open>Validators and the library\<close>

lemma fold_valid:
  "fold (\<lambda>value valid. valid \<and> P value) xs b = (b \<and> list_all P xs)"
  by (induction xs arbitrary: b) auto

lemma validateNumberInput_iff:
  "validateNumberInput input = list_all (\<lambda>v. typeof v = ''number'') input"
  by (simp add: validateNumberInput_def fold_valid)

lemma validateStringInput_iff:
  "validateStringInput input = list_all (\<lambda>v. typeof v = ''string'') input"
  by (simp add: validateStringInput_def fold_valid)

lemma typeof_number: "(typeof v = ''number'') = (\<exists>n. v = JNum n)"
  by (cases v) simp_all

lemma typeof_string: "(typeof v = ''string'') = (\<exists>s. v = JStr s)"
  by (cases v) simp_all

lemma typeof_undefined: "(typeof v = ''undefined'') = (v = JUndefined)"
  by (cases v) simp_all

lemma registry_validators:
  "list_all (\<lambda>od. validatorOf od \<noteq> None) (map snd operations)"
  by (simp add: operations_def validatorOf_def inputValidators_def)

lemma registry_validator:
  assumes "map_of operations opKey = Some od"
  shows "\<exists>validator. validatorOf od = Some validator"
proof -
  from assms have "(opKey, od) \<in> set operations"
    by (rule map_of_SomeD)
  with registry_validators show ?thesis
    by (auto simp: list_all_iff)
qed

lemma lookup_equalTo:
  "map_of operations ''equalTo'' =
     Some \<lparr>operation = (\<lambda>input. Inr (JBool (js_seq (item input 0) (item input 1)))),
       label = ''is equal to'', appliesTo = [''number''], inputCount = 1,
       getDescription = (\<lambda>values. '' == '' @ ToString (item values 0))\<rparr>"
  by (simp add: operations_def)

lemma lookup_greaterThan:
  "map_of operations ''greaterThan'' =
     Some \<lparr>operation = (\<lambda>input. Inr (JBool (js_gt (item input 0) (item input 1)))),
       label = ''is greater than'', appliesTo = [''number''], inputCount = 1,
       getDescription = (\<lambda>values. '' > '' @ ToString (item values 0))\<rparr>"
  by (simp add: operations_def)

lemma lookup_between:
  "map_of operations ''between'' =
     Some \<lparr>operation = (\<lambda>input. Inr (JBool (js_gt (item input 0) (item input 1)
                                          \<and> js_lt (item input 0) (item input 2)))),
       label = ''is between'', appliesTo = [''number''], inputCount = 2,
       getDescription = (\<lambda>values. '' between '' @ ToString (item values 0)
                                     @ '' and '' @ ToString (item values 1))\<rparr>"
  by (simp add: operations_def)

lemma lookup_notBetween:
  "map_of operations ''notBetween'' =
     Some \<lparr>operation = (\<lambda>input. Inr (JBool (js_lt (item input 0) (item input 1)
                                          \<or> js_gt (item input 0) (item input 2)))),
       label = ''is not between'', appliesTo = [''number''], inputCount = 2,
       getDescription = (\<lambda>values. '' not between '' @ ToString (item values 0)
                                     @ '' and '' @ ToString (item values 1))\<rparr>"
  by (simp add: operations_def)

lemma lookup_textIsExactly:
  "map_of operations ''textIsExactly'' =
     Some \<lparr>operation = (\<lambda>input. Inr (JBool (js_seq (item input 0) (item input 1)))),
       label = ''text is exactly'', appliesTo = [''string''], inputCount = 1,
       getDescription = (\<lambda>values. '' is exactly '' @ ToString (item values 0))\<rparr>"
  by (simp add: operations_def)

lemma lookup_isUndefined:
  "map_of operations ''isUndefined'' =
     Some \<lparr>operation = (\<lambda>input. Inr (JBool (typeof (item input 0) = ''undefined''))),
       label = ''is undefined'', appliesTo = [''string'', ''number'', ''enum''],
       inputCount = 0,
       getDescription = (\<lambda>values. '' is undefined'')\<rparr>"
  by (simp add: operations_def)

lemma lookup_isDefined:
  "map_of operations ''isDefined'' =
     Some \<lparr>operation = (\<lambda>input. Inr (JBool (typeof (item input 0) \<noteq> ''undefined''))),
       label = ''is defined'', appliesTo = [''string'', ''number'', ''enum''],
       inputCount = 0,
       getDescription = (\<lambda>values. '' is defined'')\<rparr>"
  by (simp add: operations_def)

lemma lookup_unknown: "map_of operations ''noSuchOperation'' = None"
  by (simp add: operations_def)

lemmas lookups = lookup_equalTo lookup_greaterThan lookup_between lookup_notBetween
  lookup_textIsExactly lookup_isUndefined lookup_isDefined lookup_unknown

lemmas run_defs = executeCondition_def validatorOf_def inputValidators_def validInput_def
  validateNumberInput_iff validateStringInput_iff item_def

subsection \<open>The example caches\<close>

lemma telemetryValue_present:
  assumes "activeCache ev obj = Some entity" and "entity k = Some v"
    and "typeof v \<noteq> ''undefined''"
  shows "telemetryValue ev obj k = Some [if Number v = NaN then v else JNum (Number v)]"
  using assms by (simp add: telemetryValue_def isNaN_def)


lemma activeCache_AB: "activeCache evaluatorAB = cacheAB"
  by (simp add: activeCache_def evaluatorAB_def ConditionEvaluator_def)

lemma telemetryValue_AB:
  "telemetryValue evaluatorAB ''A'' ''x'' = Some [JNum (Fin 5)]"
  "telemetryValue evaluatorAB ''B'' ''x'' = Some [JNum (Fin 10)]"
  "telemetryValue evaluatorAB ''A'' ''y'' = None"
  "telemetryValue evaluatorAB ''C'' ''x'' = None"
  by (simp_all add: telemetryValue_def activeCache_AB cacheAB_def isNaN_def)

lemma executeCondition_absent:
  "telemetryValue ev obj k = None \<Longrightarrow>
   executeCondition ev obj k opKey vals = Inl MalformedCondition"
  by (simp add: executeCondition_def split: option.splits)

lemma executeCondition_unknown:
  "map_of operations opKey = None \<Longrightarrow>
   executeCondition ev obj k opKey vals = Inl MalformedCondition"
  by (simp add: executeCondition_def)

lemma telemetryValue_shape:
  assumes "telemetryValue ev obj k = Some tv"
  shows "\<exists>x. tv = [x] \<and> typeof x \<noteq> ''undefined''"
  using assms
  by (auto simp: telemetryValue_def split: option.splits if_splits)

lemma isUndefined_never_true:
  "executeCondition ev obj k ''isUndefined'' vals \<noteq> Inr (JBool True)"
proof (cases "telemetryValue ev obj k")
  case None
  then show ?thesis by (simp add: executeCondition_absent)
next
  case (Some tv)
  then obtain x where "tv = [x]" "typeof x \<noteq> ''undefined''"
    using telemetryValue_shape by blast
  with Some show ?thesis
    by (simp add: run_defs lookups)
qed

lemma compositionObjs_AB: "compositionObjs evaluatorAB = [''A'', ''B'']"
  by (simp add: evaluatorAB_def ConditionEvaluator_def)

lemma executeCondition_AB:
  "executeCondition evaluatorAB ''A'' ''x'' ''greaterThan'' [JNum (Fin 7)] = Inr (JBool False)"
  "executeCondition evaluatorAB ''B'' ''x'' ''greaterThan'' [JNum (Fin 7)] = Inr (JBool True)"
  "executeCondition evaluatorAB ''A'' ''x'' ''equalTo'' [JStr ''abc''] = Inr (JBool False)"
  by (simp_all add: run_defs lookups telemetryValue_AB js_gt_def isLessThan_def isNaN_def)

subsection \<open>Input that fails validation\<close>

text \<open>
  Claim C1, as amended. For every operation of the library, when the field has a value in
  the active cache and the input (the telemetry value followed by the comparison values)
  fails the validation that guards the operation, \<^verbatim>\<open>executeCondition\<close> returns false
  and raises nothing; a condition on one entity is then defined, with the value false.
\<close>

theorem executeCondition_invalid_input:
  assumes "map_of operations opKey = Some od"
    and "telemetryValue ev obj k = Some tv"
    and "validatorOf od = Some validator"
    and "\<not> validInput od validator (tv @ vals)"
  shows "executeCondition ev obj k opKey vals = Inr (JBool False) \<and>
         (obj \<noteq> ''any'' \<and> obj \<noteq> ''all'' \<longrightarrow>
            (let r' = evaluateCondition ev
                 \<lparr>object = obj, key = k, operationKey = opKey, comparisonValues = vals\<rparr> r
             in conditionDefined r' \<and> conditionValue r' = JBool False))"
proof -
  have ex: "executeCondition ev obj k opKey vals = Inr (JBool False)"
    using assms by (simp add: executeCondition_def)
  then show ?thesis
    by (simp add: evaluateCondition_def)
qed

theorem executeCondition_invalid_input_witness:
  "executeCondition evaluatorAB ''A'' ''x'' ''equalTo'' [JStr ''abc''] = Inr (JBool False) \<and>
   conditionDefined (evaluateCondition evaluatorAB
      \<lparr>object = ''A'', key = ''x'', operationKey = ''equalTo'',
       comparisonValues = [JStr ''abc'']\<rparr> initialRun)"
  using executeCondition_invalid_input [OF lookup_equalTo telemetryValue_AB(1),
      of validateNumberInput "[JStr ''abc'']" initialRun]
  by (simp add: validatorOf_def inputValidators_def validInput_def validateNumberInput_iff Let_def)

text \<open>
  Claim C1 as stated fails: \<^verbatim>\<open>equalTo\<close> with the comparison value \<open>"abc"\<close> on the
  field \<open>A.x = 5\<close> returns false, and in mode \<^verbatim>\<open>all\<close> this false joins the result.
\<close>

theorem type_invalid_condition_counterexample:
  "\<not> validateNumberInput [JNum (Fin 5), JStr ''abc''] \<and>
   executeCondition evaluatorAB ''A'' ''x'' ''equalTo'' [JStr ''abc''] = Inr (JBool False) \<and>
   execute evaluatorAB (Conditions [greaterThan7 ''B'']) ''all'' = Inr (JBool True) \<and>
   execute evaluatorAB (Conditions
      [\<lparr>object = ''A'', key = ''x'', operationKey = ''equalTo'',
        comparisonValues = [JStr ''abc'']\<rparr>, greaterThan7 ''B'']) ''all'' = Inr (JBool False)"
  by (simp add: validateNumberInput_iff executeCondition_AB execute_def conditionStep_def
      combine_def evaluateCondition_def greaterThan7_def initialRun_def js_and_def)

subsection \<open>A field that is absent\<close>

text \<open>
  Claim C2 at its failing input. With no value under the key, or no entity, in the active
  cache, \<^verbatim>\<open>executeCondition\<close> raises Malformed Condition for \<^verbatim>\<open>isUndefined\<close> and
  for \<^verbatim>\<open>isDefined\<close> as for every other operation: it returns neither true nor false.
  With any evaluator, entity, key and comparison values, \<^verbatim>\<open>isUndefined\<close> never
  returns true.
\<close>

theorem absent_field_isUndefined_fails:
  "telemetryValue evaluatorAB ''A'' ''y'' = None \<and>
   executeCondition evaluatorAB ''A'' ''y'' ''isUndefined'' [] = Inl MalformedCondition \<and>
   executeCondition evaluatorAB ''A'' ''y'' ''isDefined'' [] = Inl MalformedCondition \<and>
   telemetryValue evaluatorAB ''C'' ''x'' = None \<and>
   executeCondition evaluatorAB ''C'' ''x'' ''isUndefined'' [] = Inl MalformedCondition \<and>
   executeCondition evaluatorAB ''C'' ''x'' ''isDefined'' [] = Inl MalformedCondition \<and>
   executeCondition ev obj k ''isUndefined'' vals \<noteq> Inr (JBool True)"
  by (simp add: telemetryValue_AB executeCondition_absent isUndefined_never_true)

subsection \<open>Queries with an unknown key\<close>

text \<open>
  Claim C6 at its failing input. For a key that the library does not have,
  \<^verbatim>\<open>getOperationText\<close> raises a TypeError, while \<^verbatim>\<open>getOperationDescription\<close> and
  \<^verbatim>\<open>getInputCount\<close> return undefined.
\<close>

theorem getOperationText_unknown_key:
  "getOperationText ''noSuchOperation'' = Inl TypeError \<and>
   getOperationDescription ''noSuchOperation'' [] = Inr JUndefined \<and>
   getInputCount ''noSuchOperation'' = Inr JUndefined"
  by (simp add: getOperationText_def getOperationDescription_def getInputCount_def lookup_unknown
      inherited_def objectPrototypeNames_def)

subsection \<open>Fan-out over two entities\<close>

lemma fold_anyMember_booleans:
  assumes "list_all booleanResult
      (map (\<lambda>objId. executeCondition ev objId (key c) (operationKey c) (comparisonValues c)) objs)"
    and "conditionValue r = JBool b"
  shows "fold (anyMember ev c) objs r =
     r\<lparr>conditionValue := JBool (b \<or> Inr (JBool True) \<in> set
          (map (\<lambda>objId. executeCondition ev objId (key c) (operationKey c)
             (comparisonValues c)) objs)),
       conditionDefined := (conditionDefined r \<or> objs \<noteq> [])\<rparr>"
  using assms
proof (induction objs arbitrary: r b)
  case Nil
  then show ?case by simp
next
  case (Cons objId objs)
  let ?x = "executeCondition ev objId (key c) (operationKey c) (comparisonValues c)"
  from Cons.prems(1) have "booleanResult ?x"
    and rest: "list_all booleanResult
      (map (\<lambda>objId. executeCondition ev objId (key c) (operationKey c) (comparisonValues c)) objs)"
    by simp_all
  then have x: "?x = Inr (JBool True) \<or> ?x = Inr (JBool False)"
    by (simp add: booleanResult_def)
  have step: "anyMember ev c objId r =
      r\<lparr>conditionValue := JBool (b \<or> Inr (JBool True) = ?x), conditionDefined := True\<rparr>"
    using x Cons.prems(2) by (auto simp: anyMember_def)
  show ?case
    using Cons.IH [OF rest, of "anyMember ev c objId r" "b \<or> Inr (JBool True) = ?x"]
    by (auto simp: step)
qed

lemma fold_allMember_booleans:
  assumes "list_all booleanResult
      (map (\<lambda>objId. executeCondition ev objId (key c) (operationKey c) (comparisonValues c)) objs)"
    and "conditionValue r = JBool b"
  shows "fold (allMember ev c) objs r =
     r\<lparr>conditionValue := JBool (b \<and> Inr (JBool False) \<notin> set
          (map (\<lambda>objId. executeCondition ev objId (key c) (operationKey c)
             (comparisonValues c)) objs)),
       conditionDefined := (conditionDefined r \<or> objs \<noteq> [])\<rparr>"
  using assms
proof (induction objs arbitrary: r b)
  case Nil
  then show ?case by simp
next
  case (Cons objId objs)
  let ?x = "executeCondition ev objId (key c) (operationKey c) (comparisonValues c)"
  from Cons.prems(1) have "booleanResult ?x"
    and rest: "list_all booleanResult
      (map (\<lambda>objId. executeCondition ev objId (key c) (operationKey c) (comparisonValues c)) objs)"
    by simp_all
  then have x: "?x = Inr (JBool True) \<or> ?x = Inr (JBool False)"
    by (simp add: booleanResult_def)
  have step: "allMember ev c objId r =
      r\<lparr>conditionValue := JBool (b \<and> Inr (JBool False) \<noteq> ?x), conditionDefined := True\<rparr>"
    using x Cons.prems(2) by (auto simp: allMember_def)
  show ?case
    using Cons.IH [OF rest, of "allMember ev c objId r" "b \<and> Inr (JBool False) \<noteq> ?x"]
    by (auto simp: step)
qed

lemma evaluateCondition_any:
  assumes "object c = ''any''" and "list_all booleanResult (memberResults ev c)"
  shows "evaluateCondition ev c r =
     r\<lparr>conditionValue := JBool (Inr (JBool True) \<in> set (memberResults ev c)),
       conditionDefined := (memberResults ev c \<noteq> [])\<rparr>"
  using assms(1)
    fold_anyMember_booleans [of ev c "compositionObjs ev"
      "r\<lparr>conditionDefined := False, conditionValue := JBool False\<rparr>" False]
    assms(2)
  by (simp add: evaluateCondition_def Let_def memberResults_def)

lemma evaluateCondition_all:
  assumes "object c = ''all''" and "list_all booleanResult (memberResults ev c)"
  shows "evaluateCondition ev c r =
     r\<lparr>conditionValue := JBool (Inr (JBool False) \<notin> set (memberResults ev c)),
       conditionDefined := (memberResults ev c \<noteq> [])\<rparr>"
  using assms(1)
    fold_allMember_booleans [of ev c "compositionObjs ev"
      "r\<lparr>conditionDefined := False, conditionValue := JBool True\<rparr>" True]
    assms(2)
  by (simp add: evaluateCondition_def Let_def memberResults_def)


lemma compositionObjs_BA: "compositionObjs evaluatorBA = [''B'', ''A'']"
  by (simp add: evaluatorBA_def ConditionEvaluator_def)

lemma telemetryValue_BA:
  "telemetryValue evaluatorBA ''A'' ''x'' = Some [JNum (Fin 5)]"
  "telemetryValue evaluatorBA ''B'' ''x'' = Some [JNum (Fin 10)]"
  by (simp_all add: telemetryValue_def activeCache_def evaluatorBA_def ConditionEvaluator_def
      cacheAB_def isNaN_def)

lemma executeCondition_BA:
  "executeCondition evaluatorBA ''A'' ''x'' ''greaterThan'' [JNum (Fin 7)] = Inr (JBool False)"
  "executeCondition evaluatorBA ''B'' ''x'' ''greaterThan'' [JNum (Fin 7)] = Inr (JBool True)"
  by (simp_all add: run_defs lookups telemetryValue_BA js_gt_def isLessThan_def isNaN_def)

lemma memberResults_AB:
  "memberResults evaluatorAB (greaterThan7 obj) = [Inr (JBool False), Inr (JBool True)]"
  "memberResults evaluatorBA (greaterThan7 obj) = [Inr (JBool True), Inr (JBool False)]"
  by (simp_all add: memberResults_def greaterThan7_def compositionObjs_AB compositionObjs_BA
      executeCondition_AB executeCondition_BA)

lemmas execute_defs = execute_def conditionStep_def combine_def evaluateCondition_def
  greaterThan7_def initialRun_def js_and_def js_or_def anyMember_def allMember_def

text \<open>
  Claim C7. With the entities A and B, \<open>A.x = 5\<close> and \<open>B.x = 10\<close>, the single condition
  \<^verbatim>\<open>greaterThan 7\<close> on \<open>x\<close> is true for the object \<^verbatim>\<open>any\<close> and false for the object
  \<^verbatim>\<open>all\<close>, in both modes and in both orders of the entities. The results for the
  entities are false for A and true for B; the condition for \<^verbatim>\<open>all\<close> is defined, so
  that its false decides mode \<^verbatim>\<open>all\<close> before a true condition, and the one for
  \<^verbatim>\<open>any\<close> is defined with the value true. With no entity the value of the condition
  is the seed, false for \<^verbatim>\<open>any\<close> and true for \<^verbatim>\<open>all\<close>. For every evaluator and
  condition whose results for the entities are booleans, the value for \<^verbatim>\<open>any\<close> is
  true exactly when one result is true, the value for \<^verbatim>\<open>all\<close> is true exactly when
  no result is false, and the condition is defined when there is an entity.
\<close>

theorem fan_out_example:
  "execute evaluatorAB (Conditions [greaterThan7 ''any'']) ''any'' = Inr (JBool True) \<and>
   execute evaluatorAB (Conditions [greaterThan7 ''any'']) ''all'' = Inr (JBool True) \<and>
   execute evaluatorAB (Conditions [greaterThan7 ''all'']) ''any'' = Inr (JBool False) \<and>
   execute evaluatorAB (Conditions [greaterThan7 ''all'']) ''all'' = Inr (JBool False) \<and>
   execute evaluatorBA (Conditions [greaterThan7 ''any'']) ''any'' = Inr (JBool True) \<and>
   execute evaluatorBA (Conditions [greaterThan7 ''any'']) ''all'' = Inr (JBool True) \<and>
   execute evaluatorBA (Conditions [greaterThan7 ''all'']) ''any'' = Inr (JBool False) \<and>
   execute evaluatorBA (Conditions [greaterThan7 ''all'']) ''all'' = Inr (JBool False) \<and>
   memberResults evaluatorAB (greaterThan7 ''any'') = [Inr (JBool False), Inr (JBool True)] \<and>
   memberResults evaluatorAB (greaterThan7 ''all'') = [Inr (JBool False), Inr (JBool True)] \<and>
   execute evaluatorAB (Conditions [greaterThan7 ''all'', greaterThan7 ''B'']) ''all''
     = Inr (JBool False) \<and>
   execute evaluatorAB (Conditions [greaterThan7 ''A'', greaterThan7 ''any'']) ''any''
     = Inr (JBool True) \<and>
   evaluateCondition (evaluatorAB\<lparr>compositionObjs := []\<rparr>) (greaterThan7 ''any'') initialRun
     = initialRun\<lparr>conditionValue := JBool False\<rparr> \<and>
   evaluateCondition (evaluatorAB\<lparr>compositionObjs := []\<rparr>) (greaterThan7 ''all'') initialRun
     = initialRun\<lparr>conditionValue := JBool True\<rparr> \<and>
   (object c = ''any'' \<and> list_all booleanResult (memberResults ev c) \<longrightarrow>
      evaluateCondition ev c r =
        r\<lparr>conditionValue := JBool (Inr (JBool True) \<in> set (memberResults ev c)),
          conditionDefined := (memberResults ev c \<noteq> [])\<rparr>) \<and>
   (object c = ''all'' \<and> list_all booleanResult (memberResults ev c) \<longrightarrow>
      evaluateCondition ev c r =
        r\<lparr>conditionValue := JBool (Inr (JBool False) \<notin> set (memberResults ev c)),
          conditionDefined := (memberResults ev c \<noteq> [])\<rparr>)"
proof -
  have ab: "execute evaluatorAB (Conditions [greaterThan7 ''any'']) ''any'' = Inr (JBool True)"
    "execute evaluatorAB (Conditions [greaterThan7 ''any'']) ''all'' = Inr (JBool True)"
    "execute evaluatorAB (Conditions [greaterThan7 ''all'']) ''any'' = Inr (JBool False)"
    "execute evaluatorAB (Conditions [greaterThan7 ''all'']) ''all'' = Inr (JBool False)"
    by (simp_all add: executeCondition_AB compositionObjs_AB execute_defs)
  have ba: "execute evaluatorBA (Conditions [greaterThan7 ''any'']) ''any'' = Inr (JBool True)"
    "execute evaluatorBA (Conditions [greaterThan7 ''any'']) ''all'' = Inr (JBool True)"
    "execute evaluatorBA (Conditions [greaterThan7 ''all'']) ''any'' = Inr (JBool False)"
    "execute evaluatorBA (Conditions [greaterThan7 ''all'']) ''all'' = Inr (JBool False)"
    by (simp_all add: executeCondition_BA compositionObjs_BA execute_defs)
  have two: "execute evaluatorAB (Conditions [greaterThan7 ''all'', greaterThan7 ''B'']) ''all''
      = Inr (JBool False)"
    "execute evaluatorAB (Conditions [greaterThan7 ''A'', greaterThan7 ''any'']) ''any''
      = Inr (JBool True)"
    by (simp_all add: executeCondition_AB compositionObjs_AB execute_defs)
  have seed: "evaluateCondition (evaluatorAB\<lparr>compositionObjs := []\<rparr>) (greaterThan7 ''any'')
        initialRun = initialRun\<lparr>conditionValue := JBool False\<rparr>"
    "evaluateCondition (evaluatorAB\<lparr>compositionObjs := []\<rparr>) (greaterThan7 ''all'')
        initialRun = initialRun\<lparr>conditionValue := JBool True\<rparr>"
    by (simp_all add: evaluateCondition_def greaterThan7_def initialRun_def)
  show ?thesis
    using ab ba two seed memberResults_AB(1) evaluateCondition_any [of c ev r]
      evaluateCondition_all [of c ev r]
    by simp
qed

theorem fan_out_example_witness:
  "evaluateCondition evaluatorAB (greaterThan7 ''any'') initialRun
     = initialRun\<lparr>conditionValue := JBool True, conditionDefined := True\<rparr> \<and>
   evaluateCondition evaluatorAB (greaterThan7 ''all'') initialRun
     = initialRun\<lparr>conditionValue := JBool False, conditionDefined := True\<rparr> \<and>
   evaluateCondition evaluatorBA (greaterThan7 ''any'') initialRun
     = initialRun\<lparr>conditionValue := JBool True, conditionDefined := True\<rparr> \<and>
   evaluateCondition evaluatorBA (greaterThan7 ''all'') initialRun
     = initialRun\<lparr>conditionValue := JBool False, conditionDefined := True\<rparr>"
proof -
  have obj: "object (greaterThan7 ''any'') = ''any''" "object (greaterThan7 ''all'') = ''all''"
    by (simp_all add: greaterThan7_def)
  from fan_out_example [where ev = evaluatorAB and c = "greaterThan7 ''any''"
      and r = initialRun]
    fan_out_example [where ev = evaluatorAB and c = "greaterThan7 ''all''" and r = initialRun]
    fan_out_example [where ev = evaluatorBA and c = "greaterThan7 ''any''" and r = initialRun]
    fan_out_example [where ev = evaluatorBA and c = "greaterThan7 ''all''" and r = initialRun]
  show ?thesis
    by (simp add: obj memberResults_AB booleanResult_def)
qed

subsection \<open>The bounds of between\<close>






subsection \<open>Conditions that never become defined\<close>

lemma anyMember_fails:
  "evaluationFails ev c objId \<Longrightarrow> \<not> truthy (conditionValue r) \<Longrightarrow> anyMember ev c objId r = r"
  by (auto simp: anyMember_def evaluationFails_def split: sum.splits)

lemma allMember_fails:
  "evaluationFails ev c objId \<Longrightarrow> truthy (conditionValue r) \<Longrightarrow> allMember ev c objId r = r"
  by (auto simp: allMember_def evaluationFails_def split: sum.splits)

lemma fold_anyMember_fails:
  "list_all (evaluationFails ev c) objs \<Longrightarrow> \<not> truthy (conditionValue r) \<Longrightarrow>
   fold (anyMember ev c) objs r = r"
  by (induction objs) (simp_all add: anyMember_fails)

lemma fold_allMember_fails:
  "list_all (evaluationFails ev c) objs \<Longrightarrow> truthy (conditionValue r) \<Longrightarrow>
   fold (allMember ev c) objs r = r"
  by (induction objs) (simp_all add: allMember_fails)

lemma evaluateCondition_neverDefined:
  assumes "neverDefined ev c"
  shows "\<not> conditionDefined (evaluateCondition ev c r)"
proof (cases "object c = ''any'' \<or> object c = ''all''")
  case True
  with assms have "list_all (evaluationFails ev c) (compositionObjs ev)"
    by (simp add: neverDefined_def)
  with True show ?thesis
    by (auto simp: evaluateCondition_def Let_def fold_anyMember_fails fold_allMember_fails)
next
  case False
  with assms have "evaluationFails ev c (object c)"
    by (simp add: neverDefined_def)
  with False show ?thesis
    by (auto simp: evaluateCondition_def Let_def evaluationFails_def split: sum.splits)
qed

lemma anyMember_active [simp]:
  "active (anyMember ev c objId r) = active r"
  "firstRuleEvaluated (anyMember ev c objId r) = firstRuleEvaluated r"
  by (simp_all add: anyMember_def split: sum.splits)

lemma allMember_active [simp]:
  "active (allMember ev c objId r) = active r"
  "firstRuleEvaluated (allMember ev c objId r) = firstRuleEvaluated r"
  by (simp_all add: allMember_def split: sum.splits)

lemma fold_anyMember_active [simp]:
  "active (fold (anyMember ev c) objs r) = active r"
  "firstRuleEvaluated (fold (anyMember ev c) objs r) = firstRuleEvaluated r"
  by (induction objs arbitrary: r) simp_all

lemma fold_allMember_active [simp]:
  "active (fold (allMember ev c) objs r) = active r"
  "firstRuleEvaluated (fold (allMember ev c) objs r) = firstRuleEvaluated r"
  by (induction objs arbitrary: r) simp_all

lemma evaluateCondition_active [simp]:
  "active (evaluateCondition ev c r) = active r"
  "firstRuleEvaluated (evaluateCondition ev c r) = firstRuleEvaluated r"
  by (simp_all add: evaluateCondition_def Let_def split: sum.splits)

lemma conditionStep_neverDefined:
  "neverDefined ev c \<Longrightarrow> active (conditionStep ev mode c r) = active r"
  by (simp add: conditionStep_def combine_def evaluateCondition_neverDefined)

lemma fold_conditionStep_neverDefined:
  "list_all (neverDefined ev) cs \<Longrightarrow> active (fold (conditionStep ev mode) cs r) = active r"
  by (induction cs arbitrary: r) (simp_all add: conditionStep_neverDefined)

lemma neverDefined_examples:
  "neverDefined evaluatorAB
     \<lparr>object = ''A'', key = ''x'', operationKey = ''noSuchOperation'', comparisonValues = []\<rparr>"
  "neverDefined evaluatorAB
     \<lparr>object = ''all'', key = ''y'', operationKey = ''isDefined'', comparisonValues = []\<rparr>"
  "neverDefined evaluatorAB
     \<lparr>object = ''C'', key = ''x'', operationKey = ''equalTo'',
      comparisonValues = [JNum (Fin 5)]\<rparr>"
  by (simp_all add: neverDefined_def evaluationFails_def compositionObjs_AB
      executeCondition_unknown lookup_unknown executeCondition_absent telemetryValue_def
      activeCache_AB cacheAB_def)

text \<open>
  Claim C4. In the modes \<^verbatim>\<open>any\<close> and \<^verbatim>\<open>all\<close>, when no condition of the list
  becomes defined (every evaluation of every condition fails), \<^verbatim>\<open>execute\<close> returns
  false; the empty list is the first case of this.
\<close>

theorem execute_nothing_defined:
  assumes "mode = ''any'' \<or> mode = ''all''" and "\<forall>c \<in> set cs. neverDefined ev c"
  shows "execute ev (Conditions cs) mode = Inr (JBool False)"
proof -
  from assms(1) have "mode \<noteq> ''js''" by auto
  moreover from assms(2) have "list_all (neverDefined ev) cs"
    by (simp add: list_all_iff)
  ultimately show ?thesis
    by (simp add: execute_def fold_conditionStep_neverDefined initialRun_def)
qed

theorem execute_nothing_defined_witness:
  "execute evaluatorAB (Conditions []) ''any'' = Inr (JBool False) \<and>
   execute evaluatorAB (Conditions []) ''all'' = Inr (JBool False) \<and>
   execute evaluatorAB (Conditions
     [\<lparr>object = ''A'', key = ''x'', operationKey = ''noSuchOperation'', comparisonValues = []\<rparr>,
      \<lparr>object = ''all'', key = ''y'', operationKey = ''isDefined'', comparisonValues = []\<rparr>,
      \<lparr>object = ''C'', key = ''x'', operationKey = ''equalTo'',
       comparisonValues = [JNum (Fin 5)]\<rparr>]) ''all'' = Inr (JBool False)"
  using execute_nothing_defined [of "''any''" "[]" evaluatorAB]
    execute_nothing_defined [of "''all''" "[]" evaluatorAB]
    execute_nothing_defined [of "''all''"
     "[\<lparr>object = ''A'', key = ''x'', operationKey = ''noSuchOperation'', comparisonValues = []\<rparr>,
      \<lparr>object = ''all'', key = ''y'', operationKey = ''isDefined'', comparisonValues = []\<rparr>,
      \<lparr>object = ''C'', key = ''x'', operationKey = ''equalTo'',
       comparisonValues = [JNum (Fin 5)]\<rparr>]" evaluatorAB]
  by (simp add: neverDefined_examples)

subsection \<open>Errors are absorbed\<close>

lemma conditionStep_neverDefined_first:
  "neverDefined ev c \<Longrightarrow>
   firstRuleEvaluated (conditionStep ev mode c r) = firstRuleEvaluated r"
  by (simp add: conditionStep_def combine_def evaluateCondition_neverDefined)

text \<open>The value of a condition does not depend on the run before it.\<close>

lemma anyMember_cong:
  assumes "conditionValue r = conditionValue r'" and "conditionDefined r = conditionDefined r'"
  shows "conditionValue (anyMember ev c objId r) = conditionValue (anyMember ev c objId r') \<and>
         conditionDefined (anyMember ev c objId r) = conditionDefined (anyMember ev c objId r')"
  using assms by (simp add: anyMember_def split: sum.splits)

lemma allMember_cong:
  assumes "conditionValue r = conditionValue r'" and "conditionDefined r = conditionDefined r'"
  shows "conditionValue (allMember ev c objId r) = conditionValue (allMember ev c objId r') \<and>
         conditionDefined (allMember ev c objId r) = conditionDefined (allMember ev c objId r')"
  using assms by (simp add: allMember_def split: sum.splits)

lemma fold_anyMember_cong:
  "conditionValue r = conditionValue r' \<Longrightarrow> conditionDefined r = conditionDefined r' \<Longrightarrow>
   conditionValue (fold (anyMember ev c) objs r) = conditionValue (fold (anyMember ev c) objs r') \<and>
   conditionDefined (fold (anyMember ev c) objs r)
     = conditionDefined (fold (anyMember ev c) objs r')"
proof (induction objs arbitrary: r r')
  case Nil
  then show ?case by simp
next
  case (Cons objId objs)
  from Cons.prems show ?case
    using Cons.IH [of "anyMember ev c objId r" "anyMember ev c objId r'"]
      anyMember_cong [of r r' ev c objId] by simp
qed

lemma fold_allMember_cong:
  "conditionValue r = conditionValue r' \<Longrightarrow> conditionDefined r = conditionDefined r' \<Longrightarrow>
   conditionValue (fold (allMember ev c) objs r) = conditionValue (fold (allMember ev c) objs r') \<and>
   conditionDefined (fold (allMember ev c) objs r)
     = conditionDefined (fold (allMember ev c) objs r')"
proof (induction objs arbitrary: r r')
  case Nil
  then show ?case by simp
next
  case (Cons objId objs)
  from Cons.prems show ?case
    using Cons.IH [of "allMember ev c objId r" "allMember ev c objId r'"]
      allMember_cong [of r r' ev c objId] by simp
qed

lemma evaluateCondition_cong:
  "conditionDefined (evaluateCondition ev c r) = conditionDefined (evaluateCondition ev c r') \<and>
   (conditionDefined (evaluateCondition ev c r) \<longrightarrow>
      conditionValue (evaluateCondition ev c r) = conditionValue (evaluateCondition ev c r'))"
proof -
  consider "object c = ''any''" | "object c \<noteq> ''any''" "object c = ''all''"
    | "object c \<noteq> ''any''" "object c \<noteq> ''all''" by blast
  then show ?thesis
  proof cases
    case 1
    then show ?thesis
      using fold_anyMember_cong [of "r\<lparr>conditionDefined := False, conditionValue := JBool False\<rparr>"
          "r'\<lparr>conditionDefined := False, conditionValue := JBool False\<rparr>" ev c "compositionObjs ev"]
      by (simp add: evaluateCondition_def Let_def)
  next
    case 2
    then show ?thesis
      using fold_allMember_cong [of "r\<lparr>conditionDefined := False, conditionValue := JBool True\<rparr>"
          "r'\<lparr>conditionDefined := False, conditionValue := JBool True\<rparr>" ev c "compositionObjs ev"]
      by (simp add: evaluateCondition_def Let_def)
  next
    case 3
    then show ?thesis
      by (simp add: evaluateCondition_def Let_def split: sum.splits)
  qed
qed

lemma conditionStep_cong:
  assumes "active r = active r'" and "firstRuleEvaluated r = firstRuleEvaluated r'"
  shows "active (conditionStep ev mode c r) = active (conditionStep ev mode c r') \<and>
         firstRuleEvaluated (conditionStep ev mode c r)
           = firstRuleEvaluated (conditionStep ev mode c r')"
  using assms evaluateCondition_cong [of ev c r r']
  by (auto simp: conditionStep_def combine_def Let_def)

lemma fold_conditionStep_cong:
  "active r = active r' \<Longrightarrow> firstRuleEvaluated r = firstRuleEvaluated r' \<Longrightarrow>
   active (fold (conditionStep ev mode) cs r) = active (fold (conditionStep ev mode) cs r')"
proof (induction cs arbitrary: r r')
  case Nil
  then show ?case by simp
next
  case (Cons c cs)
  from Cons.prems show ?case
    using Cons.IH [of "conditionStep ev mode c r" "conditionStep ev mode c r'"]
      conditionStep_cong [of r r' ev mode c] by simp
qed

lemma fold_conditionStep_skip:
  assumes "neverDefined ev c"
  shows "active (fold (conditionStep ev mode) (cs1 @ c # cs2) r)
           = active (fold (conditionStep ev mode) (cs1 @ cs2) r)"
proof -
  have "active (fold (conditionStep ev mode) cs2
            (conditionStep ev mode c (fold (conditionStep ev mode) cs1 r)))
      = active (fold (conditionStep ev mode) cs2 (fold (conditionStep ev mode) cs1 r))"
    using assms
    by (intro fold_conditionStep_cong)
      (simp_all add: conditionStep_neverDefined conditionStep_neverDefined_first)
  then show ?thesis by simp
qed

text \<open>An entity whose evaluation fails has no part in a fan-out.\<close>

lemma telemetryValue_compositionObjs [simp]:
  "telemetryValue (ev\<lparr>compositionObjs := objs\<rparr>) obj k = telemetryValue ev obj k"
  by (simp add: telemetryValue_def activeCache_def)

lemma executeCondition_compositionObjs [simp]:
  "executeCondition (ev\<lparr>compositionObjs := objs\<rparr>) obj k opKey vals
     = executeCondition ev obj k opKey vals"
  by (simp add: executeCondition_def split: option.splits)

lemma anyMember_compositionObjs [simp]:
  "anyMember (ev\<lparr>compositionObjs := objs\<rparr>) c = anyMember ev c"
  by (intro ext) (simp add: anyMember_def)

lemma allMember_compositionObjs [simp]:
  "allMember (ev\<lparr>compositionObjs := objs\<rparr>) c = allMember ev c"
  by (intro ext) (simp add: allMember_def)

lemma anyMember_inv:
  "truthy (conditionValue (anyMember ev c objId r)) \<Longrightarrow>
   truthy (conditionValue r) \<longrightarrow> conditionDefined r \<Longrightarrow>
   conditionDefined (anyMember ev c objId r)"
  by (auto simp: anyMember_def split: sum.splits if_splits)

lemma allMember_inv:
  "\<not> truthy (conditionValue (allMember ev c objId r)) \<Longrightarrow>
   \<not> truthy (conditionValue r) \<longrightarrow> conditionDefined r \<Longrightarrow>
   conditionDefined (allMember ev c objId r)"
  by (auto simp: allMember_def split: sum.splits if_splits)

lemma fold_anyMember_inv:
  "truthy (conditionValue r) \<longrightarrow> conditionDefined r \<Longrightarrow>
   truthy (conditionValue (fold (anyMember ev c) objs r)) \<longrightarrow>
   conditionDefined (fold (anyMember ev c) objs r)"
  by (induction objs arbitrary: r) (auto simp: anyMember_inv)

lemma fold_allMember_inv:
  "\<not> truthy (conditionValue r) \<longrightarrow> conditionDefined r \<Longrightarrow>
   \<not> truthy (conditionValue (fold (allMember ev c) objs r)) \<longrightarrow>
   conditionDefined (fold (allMember ev c) objs r)"
  by (induction objs arbitrary: r) (auto simp: allMember_inv)

lemma anyMember_skip:
  "evaluationFails ev c objId \<Longrightarrow> truthy (conditionValue r) \<longrightarrow> conditionDefined r \<Longrightarrow>
   anyMember ev c objId r = r"
  by (auto simp: anyMember_def evaluationFails_def split: sum.splits)

lemma allMember_skip:
  "evaluationFails ev c objId \<Longrightarrow> \<not> truthy (conditionValue r) \<longrightarrow> conditionDefined r \<Longrightarrow>
   allMember ev c objId r = r"
  by (auto simp: allMember_def evaluationFails_def split: sum.splits)

lemma fold_anyMember_skip:
  assumes "evaluationFails ev c objId" and "truthy (conditionValue r) \<longrightarrow> conditionDefined r"
  shows "fold (anyMember ev c) (xs @ objId # ys) r = fold (anyMember ev c) (xs @ ys) r"
  using assms fold_anyMember_inv [of r ev c xs]
  by (simp add: anyMember_skip)

lemma fold_allMember_skip:
  assumes "evaluationFails ev c objId"
    and "\<not> truthy (conditionValue r) \<longrightarrow> conditionDefined r"
  shows "fold (allMember ev c) (xs @ objId # ys) r = fold (allMember ev c) (xs @ ys) r"
  using assms fold_allMember_inv [of r ev c xs]
  by (simp add: allMember_skip)

lemma evaluateCondition_skip:
  assumes "object c = ''any'' \<or> object c = ''all'' \<longrightarrow> evaluationFails ev c objId"
  shows "evaluateCondition (ev\<lparr>compositionObjs := xs @ objId # ys\<rparr>) c r
           = evaluateCondition (ev\<lparr>compositionObjs := xs @ ys\<rparr>) c r"
  using assms
  by (auto simp: evaluateCondition_def Let_def fold_anyMember_skip fold_allMember_skip
      simp del: fold_append)

lemma fold_conditionStep_member:
  assumes "\<forall>c \<in> set cs. object c = ''any'' \<or> object c = ''all'' \<longrightarrow> evaluationFails ev c objId"
  shows "fold (conditionStep (ev\<lparr>compositionObjs := xs @ objId # ys\<rparr>) mode) cs r
           = fold (conditionStep (ev\<lparr>compositionObjs := xs @ ys\<rparr>) mode) cs r"
  using assms
proof (induction cs arbitrary: r)
  case Nil
  then show ?case by simp
next
  case (Cons c cs)
  then show ?case
    by (simp add: conditionStep_def evaluateCondition_skip)
qed

lemma evaluationFails_C:
  "evaluationFails evaluatorAB (greaterThan7 ''any'') ''C''"
  by (simp add: evaluationFails_def greaterThan7_def executeCondition_absent telemetryValue_AB)

text \<open>
  Claim C5. In the modes \<^verbatim>\<open>any\<close> and \<^verbatim>\<open>all\<close>, \<^verbatim>\<open>execute\<close> returns a value for
  every list of conditions and raises nothing. A condition none of whose evaluations
  succeeds can be taken out of the list without changing the result, whatever follows
  it; and so can an entity of the fan-out for which the evaluation of every
  \<^verbatim>\<open>any\<close> or \<^verbatim>\<open>all\<close> condition fails.
\<close>

theorem execute_absorbs_errors:
  assumes "mode = ''any'' \<or> mode = ''all''"
  shows "(\<exists>v. execute ev (Conditions cs) mode = Inr v) \<and>
         (neverDefined ev c \<longrightarrow>
            execute ev (Conditions (cs1 @ c # cs2)) mode
              = execute ev (Conditions (cs1 @ cs2)) mode) \<and>
         ((\<forall>c \<in> set cs. object c = ''any'' \<or> object c = ''all''
              \<longrightarrow> evaluationFails ev c objId) \<longrightarrow>
            execute (ev\<lparr>compositionObjs := xs @ objId # ys\<rparr>) (Conditions cs) mode
              = execute (ev\<lparr>compositionObjs := xs @ ys\<rparr>) (Conditions cs) mode)"
proof -
  from assms have mode: "mode \<noteq> ''js''" by auto
  then have "\<exists>v. execute ev (Conditions cs) mode = Inr v"
    by (simp add: execute_def)
  moreover have "execute ev (Conditions (cs1 @ c # cs2)) mode
      = execute ev (Conditions (cs1 @ cs2)) mode" if "neverDefined ev c"
    using mode that fold_conditionStep_skip [of ev c mode cs1 cs2 initialRun]
    by (simp add: execute_def)
  moreover have "execute (ev\<lparr>compositionObjs := xs @ objId # ys\<rparr>) (Conditions cs) mode
      = execute (ev\<lparr>compositionObjs := xs @ ys\<rparr>) (Conditions cs) mode"
    if "\<forall>c \<in> set cs. object c = ''any'' \<or> object c = ''all'' \<longrightarrow> evaluationFails ev c objId"
    using mode that by (simp add: execute_def fold_conditionStep_member)
  ultimately show ?thesis by blast
qed

theorem execute_absorbs_errors_witness:
  "(\<exists>v. execute evaluatorAB (Conditions
      [\<lparr>object = ''A'', key = ''x'', operationKey = ''noSuchOperation'', comparisonValues = []\<rparr>,
       greaterThan7 ''any'']) ''any'' = Inr v) \<and>
   execute evaluatorAB (Conditions
      ([] @ \<lparr>object = ''A'', key = ''x'', operationKey = ''noSuchOperation'',
             comparisonValues = []\<rparr> # [greaterThan7 ''any''])) ''any''
     = execute evaluatorAB (Conditions ([] @ [greaterThan7 ''any''])) ''any'' \<and>
   execute (evaluatorAB\<lparr>compositionObjs := [''A''] @ ''C'' # [''B'']\<rparr>)
      (Conditions [greaterThan7 ''any'']) ''any''
     = execute (evaluatorAB\<lparr>compositionObjs := [''A''] @ [''B'']\<rparr>)
      (Conditions [greaterThan7 ''any'']) ''any''"
proof -
  have mode: "''any'' = ''any'' \<or> ''any'' = ''all''" by simp
  have fails: "\<forall>c \<in> set [greaterThan7 ''any'']. object c = ''any'' \<or> object c = ''all''
      \<longrightarrow> evaluationFails evaluatorAB c ''C''"
    by (simp add: evaluationFails_C)
  note inst = execute_absorbs_errors [OF mode, of evaluatorAB _
      "\<lparr>object = ''A'', key = ''x'', operationKey = ''noSuchOperation'', comparisonValues = []\<rparr>"
      "[]" "[greaterThan7 ''any'']" "''C''" "[''A'']" "[''B'']"]
  from inst [of "[\<lparr>object = ''A'', key = ''x'', operationKey = ''noSuchOperation'',
        comparisonValues = []\<rparr>, greaterThan7 ''any'']"]
    inst [of "[greaterThan7 ''any'']"] fails neverDefined_examples(1)
  show ?thesis by blast
qed

subsection \<open>Coercion of the cache value\<close>

lemmas parse_defs = StringToNumber_def trim_def isWhiteSpace_def parseNonDecimal_def
  parseUnsignedDecimal_def isDigit_def digitValue_def digitsValue_def parseExponent_def
  pow10_def

lemma StringToNumber_examples:
  "StringToNumber ''42'' = Fin 42"
  "StringToNumber [] = Fin 0"
  "StringToNumber ''Infinity'' = PosInf"
  "StringToNumber ''on'' = NaN"
  by (simp_all add: parse_defs)

lemma activeCache_text: "activeCache textEvaluator = textCache"
  by (simp add: activeCache_def textEvaluator_def ConditionEvaluator_def)

lemma textCache_A: "activeCache textEvaluator ''A'' = Some textFields"
  by (simp add: activeCache_text textCache_def)

lemma textFields_examples:
  "textFields ''count'' = Some (JStr ''42'')"
  "textFields ''empty'' = Some (JStr [])"
  "textFields ''huge'' = Some (JStr ''Infinity'')"
  "textFields ''state'' = Some (JStr ''on'')"
  by (simp_all add: textFields_def)

lemma telemetryValue_text:
  "telemetryValue textEvaluator ''A'' ''count'' = Some [JNum (Fin 42)]"
  "telemetryValue textEvaluator ''A'' ''empty'' = Some [JNum (Fin 0)]"
  "telemetryValue textEvaluator ''A'' ''huge'' = Some [JNum PosInf]"
  "telemetryValue textEvaluator ''A'' ''state'' = Some [JStr ''on'']"
  by (simp_all add: telemetryValue_def textCache_A textFields_examples isNaN_def
      StringToNumber_examples)

lemma executeCondition_equalTo_same:
  assumes "telemetryValue ev obj k = Some [JNum n]" and "n \<noteq> NaN"
  shows "executeCondition ev obj k ''equalTo'' [JNum n] = Inr (JBool True)"
  using assms by (simp add: run_defs lookups js_seq_def)

lemma executeCondition_string_operation:
  assumes "telemetryValue ev obj k = Some [JNum n]"
    and "map_of operations opKey = Some od" and "appliesTo od = [''string'']"
  shows "executeCondition ev obj k opKey vals = Inr (JBool False)"
  using assms by (simp add: run_defs)

text \<open>
  Claim C8, as amended. A cache value other than undefined is replaced by
  \<^verbatim>\<open>Number(value)\<close> exactly when that is not NaN, and is kept as it is when
  \<^verbatim>\<open>Number(value)\<close> is NaN; every value that parses to a finite number is therefore
  replaced, and the text \<open>"42"\<close> under \<^verbatim>\<open>equalTo\<close> with the comparison value 42 gives
  true.
\<close>

theorem coercion_unless_NaN:
  assumes "activeCache ev obj = Some entity" and "entity k = Some v"
    and "typeof v \<noteq> ''undefined''"
  shows "(Number v \<noteq> NaN \<longrightarrow> telemetryValue ev obj k = Some [JNum (Number v)]) \<and>
         (Number v = NaN \<longrightarrow> telemetryValue ev obj k = Some [v]) \<and>
         (parsesToFiniteNumber v \<longrightarrow> telemetryValue ev obj k = Some [JNum (Number v)]) \<and>
         (v = JStr ''42'' \<longrightarrow>
            executeCondition ev obj k ''equalTo'' [JNum (Fin 42)] = Inr (JBool True))"
proof -
  note tv = telemetryValue_present [OF assms]
  have "executeCondition ev obj k ''equalTo'' [JNum (Fin 42)] = Inr (JBool True)"
    if "v = JStr ''42''"
    using tv that
    by (intro executeCondition_equalTo_same) (simp_all add: StringToNumber_examples)
  moreover have "Number v \<noteq> NaN" if "parsesToFiniteNumber v"
    using that by (auto simp: parsesToFiniteNumber_def)
  ultimately show ?thesis
    using tv by simp
qed

theorem coercion_unless_NaN_witness:
  "telemetryValue textEvaluator ''A'' ''count'' = Some [JNum (Fin 42)] \<and>
   executeCondition textEvaluator ''A'' ''count'' ''equalTo'' [JNum (Fin 42)]
     = Inr (JBool True) \<and>
   telemetryValue textEvaluator ''A'' ''state'' = Some [JStr ''on'']"
proof -
  have count: "typeof (JStr ''42'') \<noteq> ''undefined''"
    and state: "typeof (JStr ''on'') \<noteq> ''undefined''" by simp_all
  from coercion_unless_NaN [OF textCache_A textFields_examples(1) count]
    coercion_unless_NaN [OF textCache_A textFields_examples(4) state]
  show ?thesis
    by (simp add: StringToNumber_examples)
qed

text \<open>
  Claim C8 as stated fails: the text \<open>"Infinity"\<close> does not parse to a finite number, and
  is replaced by the Number Infinity all the same.
\<close>

theorem coercion_of_Infinity_counterexample:
  "\<not> parsesToFiniteNumber (JStr ''Infinity'') \<and>
   telemetryValue textEvaluator ''A'' ''huge'' = Some [JNum PosInf] \<and>
   telemetryValue textEvaluator ''A'' ''huge'' \<noteq> Some [coercionOfSpec (JStr ''Infinity'')]"
  by (simp add: telemetryValue_text coercionOfSpec_def parsesToFiniteNumber_def
      StringToNumber_examples)

text \<open>
  Claim C10. A cached text whose conversion by \<^verbatim>\<open>Number\<close> is not NaN reaches the
  operations as that Number: \<^verbatim>\<open>equalTo\<close> with that Number is true, and every operation
  that applies to strings gets an input that is not all strings and returns false. The
  empty string converts to 0 and \<open>"Infinity"\<close> to Infinity.
\<close>

theorem coercion_of_numeric_text:
  assumes "activeCache ev obj = Some entity" and "entity k = Some (JStr s)"
    and "StringToNumber s \<noteq> NaN"
  shows "telemetryValue ev obj k = Some [JNum (StringToNumber s)] \<and>
         executeCondition ev obj k ''equalTo'' [JNum (StringToNumber s)] = Inr (JBool True) \<and>
         (map_of operations opKey = Some od \<and> appliesTo od = [''string''] \<longrightarrow>
            executeCondition ev obj k opKey vals = Inr (JBool False)) \<and>
         StringToNumber [] = Fin 0 \<and> StringToNumber ''Infinity'' = PosInf"
proof -
  have tv: "telemetryValue ev obj k = Some [JNum (StringToNumber s)]"
    using telemetryValue_present [OF assms(1,2)] assms(3) by simp
  then show ?thesis
    using assms(3)
    by (simp add: executeCondition_equalTo_same executeCondition_string_operation
        StringToNumber_examples)
qed

theorem coercion_of_numeric_text_witness:
  "telemetryValue textEvaluator ''A'' ''empty'' = Some [JNum (Fin 0)] \<and>
   executeCondition textEvaluator ''A'' ''empty'' ''equalTo'' [JNum (Fin 0)]
     = Inr (JBool True) \<and>
   executeCondition textEvaluator ''A'' ''empty'' ''textIsExactly'' [JStr []]
     = Inr (JBool False) \<and>
   telemetryValue textEvaluator ''A'' ''huge'' = Some [JNum PosInf]"
proof -
  have empty: "StringToNumber [] \<noteq> NaN" and huge: "StringToNumber ''Infinity'' \<noteq> NaN"
    by (simp_all add: StringToNumber_examples)
  obtain od where od: "map_of operations ''textIsExactly'' = Some od"
      "appliesTo od = [''string'']"
    by (simp add: lookup_textIsExactly)
  from coercion_of_numeric_text [OF textCache_A textFields_examples(2) empty,
      of "''textIsExactly''" od "[JStr []]"]
    coercion_of_numeric_text [OF textCache_A textFields_examples(3) huge] od
  show ?thesis
    by (simp add: StringToNumber_examples)
qed

subsection \<open>Reads of inherited properties\<close>

text \<open>
  A read that yields an inherited method gives a telemetry value that is neither a
  number nor a string: every operation of the library returns false on it, and raises
  nothing.
\<close>

lemma StringToNumber_method: "Number toStringMethod = NaN"
  by (simp add: toStringMethod_def parse_defs)

lemma telemetryValue_method:
  "telemetryValue literalEvaluator ''A'' ''toString'' = Some [toStringMethod]"
  using StringToNumber_method
  by (simp add: telemetryValue_def activeCache_def literalEvaluator_def ConditionEvaluator_def
      isNaN_def toStringMethod_def)

lemma inherited_method_isDefined:
  "executeCondition literalEvaluator ''A'' ''toString'' ''isDefined'' [] = Inr (JBool False)"
  by (simp add: run_defs lookups telemetryValue_method toStringMethod_def)

lemma object_fails_validation:
  assumes "map_of operations opKey = Some od"
    and "telemetryValue ev obj k = Some [JObject i f s]"
  shows "executeCondition ev obj k opKey vals = Inr (JBool False)"
proof -
  obtain validator where v: "validatorOf od = Some validator"
    using registry_validator [OF assms(1)] by blast
  then have "validator = validateNumberInput \<or> validator = validateStringInput"
    by (auto simp: validatorOf_def inputValidators_def split: list.splits if_splits)
  then have "\<not> validInput od validator ([JObject i f s] @ vals)"
    by (auto simp: validInput_def validateNumberInput_iff validateStringInput_iff)
  with assms v show ?thesis
    by (simp add: executeCondition_def)
qed

subsection \<open>The test cache\<close>

text \<open>
  An evaluation reads the evaluator through its active cache, its entities and its
  expression evaluator only.
\<close>

lemma executeCondition_activeCache:
  assumes "activeCache ev = activeCache ev'"
  shows "executeCondition ev = executeCondition ev'"
proof -
  have "telemetryValue ev = telemetryValue ev'"
    by (intro ext) (simp add: telemetryValue_def assms)
  then show ?thesis
    by (intro ext) (simp only: executeCondition_def)
qed

lemma execute_activeCache:
  assumes "activeCache ev = activeCache ev'" and "compositionObjs ev = compositionObjs ev'"
    and "executeJavaScriptCondition ev = executeJavaScriptCondition ev'"
  shows "execute ev = execute ev'"
proof -
  note ex = executeCondition_activeCache [OF assms(1)]
  have any: "anyMember ev = anyMember ev'"
    by (intro ext) (simp only: anyMember_def ex)
  have all: "allMember ev = allMember ev'"
    by (intro ext) (simp only: allMember_def ex)
  have "evaluateCondition ev = evaluateCondition ev'"
    by (intro ext) (simp only: evaluateCondition_def ex any all assms(2))
  then have "conditionStep ev = conditionStep ev'"
    by (intro ext) (simp only: conditionStep_def)
  then show ?thesis
    by (intro ext) (simp only: execute_def assms(3))
qed

lemma activeCache_test:
  "activeCache (setTestDataCache (useTestData ev True) cache) = cache"
  "activeCache (useTestData (setTestDataCache (useTestData ev True) cache) False)
     = subscriptionCache ev"
  "activeCache (ConditionEvaluator cache objs js) = cache"
  by (simp_all add: activeCache_def setTestDataCache_def useTestData_def
      ConditionEvaluator_def)

text \<open>
  Claim C9. After \<^verbatim>\<open>useTestData(true)\<close> and \<^verbatim>\<open>setTestDataCache\<close> with a cache
  where \<open>A.x = 1\<close>, the field \<open>x\<close> of A resolves to 1 whatever the subscription cache
  holds; every evaluation is then that of an evaluator built on the test cache alone,
  and after \<^verbatim>\<open>useTestData(false)\<close> that of an evaluator built on the subscription
  cache alone, while the test cache is still in place.
\<close>

theorem test_cache_switch:
  "telemetryValue (setTestDataCache (useTestData ev True) testCacheA) ''A'' ''x''
     = Some [JNum (Fin 1)] \<and>
   execute (setTestDataCache (useTestData ev True) cache)
     = execute (ConditionEvaluator cache (compositionObjs ev) (executeJavaScriptCondition ev)) \<and>
   executeCondition (setTestDataCache (useTestData ev True) cache)
     = executeCondition (ConditionEvaluator cache objs js) \<and>
   execute (useTestData (setTestDataCache (useTestData ev True) cache) False)
     = execute (ConditionEvaluator (subscriptionCache ev) (compositionObjs ev)
          (executeJavaScriptCondition ev)) \<and>
   executeCondition (useTestData (setTestDataCache (useTestData ev True) cache) False)
     = executeCondition (ConditionEvaluator (subscriptionCache ev) objs js) \<and>
   testCache (useTestData (setTestDataCache (useTestData ev True) cache) False) = cache"
proof -
  have "telemetryValue (setTestDataCache (useTestData ev True) testCacheA) ''A'' ''x''
      = Some [JNum (Fin 1)]"
    by (simp add: telemetryValue_def activeCache_test testCacheA_def isNaN_def)
  moreover have "execute (setTestDataCache (useTestData ev True) cache)
      = execute (ConditionEvaluator cache (compositionObjs ev) (executeJavaScriptCondition ev))"
    by (rule execute_activeCache)
      (simp_all add: activeCache_test, simp_all add: setTestDataCache_def useTestData_def
        ConditionEvaluator_def)
  moreover have "execute (useTestData (setTestDataCache (useTestData ev True) cache) False)
      = execute (ConditionEvaluator (subscriptionCache ev) (compositionObjs ev)
          (executeJavaScriptCondition ev))"
    by (rule execute_activeCache)
      (simp_all add: activeCache_test, simp_all add: setTestDataCache_def useTestData_def
        ConditionEvaluator_def)
  moreover have "executeCondition (setTestDataCache (useTestData ev True) cache)
      = executeCondition (ConditionEvaluator cache objs js)"
    by (rule executeCondition_activeCache) (simp add: activeCache_test)
  moreover have
    "executeCondition (useTestData (setTestDataCache (useTestData ev True) cache) False)
      = executeCondition (ConditionEvaluator (subscriptionCache ev) objs js)"
    by (rule executeCondition_activeCache) (simp add: activeCache_test)
  moreover have
    "testCache (useTestData (setTestDataCache (useTestData ev True) cache) False) = cache"
    by (simp add: setTestDataCache_def useTestData_def)
  ultimately show ?thesis by blast
qed

theorem test_cache_switch_witness:
  "telemetryValue evaluatorAB ''A'' ''x'' = Some [JNum (Fin 5)] \<and>
   telemetryValue (setTestDataCache (useTestData evaluatorAB True) testCacheA) ''A'' ''x''
     = Some [JNum (Fin 1)] \<and>
   executeCondition (setTestDataCache (useTestData evaluatorAB True) testCacheA)
      ''B'' ''x'' ''isDefined'' [] = Inl MalformedCondition \<and>
   executeCondition (useTestData (setTestDataCache (useTestData evaluatorAB True) testCacheA)
      False) ''A'' ''x'' ''equalTo'' [JNum (Fin 5)] = Inr (JBool True)"
proof -
  have live: "subscriptionCache evaluatorAB = cacheAB"
    by (simp add: evaluatorAB_def ConditionEvaluator_def)
  have "telemetryValue (ConditionEvaluator testCacheA [] noJavaScript) ''B'' ''x'' = None"
    by (simp add: telemetryValue_def activeCache_test testCacheA_def)
  then have absent: "executeCondition (ConditionEvaluator testCacheA [] noJavaScript)
      ''B'' ''x'' ''isDefined'' [] = Inl MalformedCondition"
    by (rule executeCondition_absent)
  have "telemetryValue (ConditionEvaluator cacheAB [] noJavaScript) ''A'' ''x''
      = Some [JNum (Fin 5)]"
    by (simp add: telemetryValue_def activeCache_test cacheAB_def isNaN_def)
  then have restored: "executeCondition (ConditionEvaluator cacheAB [] noJavaScript)
      ''A'' ''x'' ''equalTo'' [JNum (Fin 5)] = Inr (JBool True)"
    by (rule executeCondition_equalTo_same) simp
  from test_cache_switch [of evaluatorAB testCacheA "[]" noJavaScript] absent restored
  show ?thesis
    by (simp add: live telemetryValue_AB)
qed

end
